theory Spec2Isabelle
  imports Complex_Main
begin

section \<open>Values and errors\<close>

text \<open>
  Python floats are modelled as real numbers: comparisons and the arithmetic operators are
  exact, and the special values (NaN, the infinities) are outside the model. The functions
  of the \<open>math\<close> module are not exact and are a parameter of the model, so that what the
  code does with their results, a domain error included, is a branch of it. Every exception
  the modelled code can raise is a value of \<open>error\<close>.
\<close>

datatype value_error =
    InvalidPointsLine string
  | CouldNotConvert string
  | MathDomainError
  | EmptySequence
  | UnpackError

datatype error =
    FileNotFoundError string
  | ValueError value_error
  | ArgumentTypeError string
  | ZeroDivisionError

text \<open>
  \<open>InvalidPointsLine raw\<close> is the error of \<open>_read_points_csv\<close> whose message quotes the raw
  line; \<open>CouldNotConvert s\<close> is the error of the builtin \<open>float(s)\<close>, whose message quotes
  its argument \<open>s\<close>; \<open>MathDomainError\<close> is the error of \<open>math.sqrt\<close> and \<open>math.asin\<close>
  outside their domains.
\<close>

definition truediv :: "real \<Rightarrow> real \<Rightarrow> error + real" where
  "truediv x y = (if y = 0 then Inl ZeroDivisionError else Inr (x / y))"

text \<open>
  The \<open>math\<close> module as the platform provides it: the floats its functions return.
  \<open>math.sqrt\<close> raises below 0 and \<open>math.asin\<close> raises outside \<open>[-1, 1]\<close>; inside their
  domains they return what the module computes.
\<close>

record math_module =
  m_radians :: "real \<Rightarrow> real"
  m_sin :: "real \<Rightarrow> real"
  m_cos :: "real \<Rightarrow> real"
  m_sqrt :: "real \<Rightarrow> real"
  m_asin :: "real \<Rightarrow> real"

definition math_sqrt :: "math_module \<Rightarrow> real \<Rightarrow> error + real" where
  "math_sqrt M x = (if x < 0 then Inl (ValueError MathDomainError) else Inr (m_sqrt M x))"

definition math_asin :: "math_module \<Rightarrow> real \<Rightarrow> error + real" where
  "math_asin M x =
     (if x < - 1 \<or> 1 < x then Inl (ValueError MathDomainError) else Inr (m_asin M x))"

text \<open>The builtin \<open>float\<close> on a string, with the parser itself a parameter.\<close>

definition py_float :: "(string \<Rightarrow> real option) \<Rightarrow> string \<Rightarrow> error + real" where
  "py_float to_float s =
     (case to_float s of None \<Rightarrow> Inl (ValueError (CouldNotConvert s)) | Some x \<Rightarrow> Inr x)"

text \<open>\<open>sorted((a, b))\<close>: a stable sort of two values, comparing with \<open><\<close>.\<close>

definition sorted2 :: "real \<Rightarrow> real \<Rightarrow> real \<times> real" where
  "sorted2 a b = (if b < a then (b, a) else (a, b))"

text \<open>\<open>min(xs)\<close> and \<open>max(xs)\<close> of a list: a value error on the empty list.\<close>

fun py_min :: "real list \<Rightarrow> error + real" where
  "py_min [] = Inl (ValueError EmptySequence)"
| "py_min (x # xs) = Inr (fold (\<lambda>y m. if y < m then y else m) xs x)"

fun py_max :: "real list \<Rightarrow> error + real" where
  "py_max [] = Inl (ValueError EmptySequence)"
| "py_max (x # xs) = Inr (fold (\<lambda>y m. if m < y then y else m) xs x)"

section \<open>Region\<close>

datatype Region = Region
  (minimum_longitude: real)
  (maximum_longitude: real)
  (minimum_latitude: real)
  (maximum_latitude: real)

definition normalized :: "Region \<Rightarrow> Region" where
  "normalized self =
     (let (lon0, lon1) = sorted2 (minimum_longitude self) (maximum_longitude self);
          (lat0, lat1) = sorted2 (minimum_latitude self) (maximum_latitude self)
      in Region lon0 lon1 lat0 lat1)"

definition as_extent :: "Region \<Rightarrow> real list" where
  "as_extent self =
     [minimum_longitude self, maximum_longitude self, minimum_latitude self, maximum_latitude self]"

definition DEFAULT_WORLD_REGION :: Region where
  "DEFAULT_WORLD_REGION = Region (- 11.0) (- 5.0) 50.5 56.5"

definition DEFAULT_inset_size :: real where
  "DEFAULT_inset_size = 0.30"

definition DEFAULT_inset_margin :: real where
  "DEFAULT_inset_margin = 0.02"

section \<open>Geometry helpers\<close>

definition haversine_m :: "math_module \<Rightarrow> real \<Rightarrow> real \<Rightarrow> real \<Rightarrow> real \<Rightarrow> error + real" where
  "haversine_m M lat1 lon1 lat2 lon2 =
     (let r = 6371000.0;
          phi1 = m_radians M lat1;
          phi2 = m_radians M lat2;
          dphi = phi2 - phi1;
          dlambda = m_radians M (lon2 - lon1);
          a = (m_sin M (dphi / 2))\<^sup>2 + m_cos M phi1 * m_cos M phi2 * (m_sin M (dlambda / 2))\<^sup>2
      in case math_sqrt M a of
           Inl e \<Rightarrow> Inl e
         | Inr s \<Rightarrow>
             (case math_asin M (min 1.0 s) of
                Inl e \<Rightarrow> Inl e
              | Inr t \<Rightarrow> Inr (2 * r * t)))"

definition geographic_aspect :: "math_module \<Rightarrow> Region \<Rightarrow> error + real" where
  "geographic_aspect M region0 =
     (let region = normalized region0;
          mean_latitude = (minimum_latitude region + maximum_latitude region) / 2;
          denominator = (maximum_longitude region - minimum_longitude region)
                        * m_cos M (m_radians M mean_latitude)
      in if denominator = 0 then Inr 1.0
         else truediv (maximum_latitude region - minimum_latitude region) denominator)"

section \<open>Point clustering\<close>

type_synonym point = "real \<times> real"

type_synonym cluster = "real \<times> real \<times> int"

text \<open>
  The inner loop of \<open>cluster_points\<close>: the scan of the clusters for one point. It returns
  the flag \<open>assigned\<close> and the clusters, the first one within \<open>min_distance_m\<close> of the point
  replaced by its update (the \<open>break\<close> leaves the rest as it is).
\<close>

fun scan_clusters ::
  "math_module \<Rightarrow> real \<Rightarrow> real \<Rightarrow> real \<Rightarrow> cluster list \<Rightarrow> error + (bool \<times> cluster list)" where
  "scan_clusters M lat lon min_distance_m [] = Inr (False, [])"
| "scan_clusters M lat lon min_distance_m ((clat, clon, count) # cs) =
     (case haversine_m M lat lon clat clon of
        Inl e \<Rightarrow> Inl e
      | Inr h \<Rightarrow>
          if h \<le> min_distance_m then
            (let new_count = count + 1 in
             case truediv (clat * of_int count + lat) (of_int new_count) of
               Inl e \<Rightarrow> Inl e
             | Inr new_lat \<Rightarrow>
                 (case truediv (clon * of_int count + lon) (of_int new_count) of
                    Inl e \<Rightarrow> Inl e
                  | Inr new_lon \<Rightarrow> Inr (True, (new_lat, new_lon, new_count) # cs)))
          else
            (case scan_clusters M lat lon min_distance_m cs of
               Inl e \<Rightarrow> Inl e
             | Inr (assigned, cs') \<Rightarrow> Inr (assigned, (clat, clon, count) # cs')))"

text \<open>The outer loop: the points in order, the clusters as the state.\<close>

fun cluster_loop ::
  "math_module \<Rightarrow> real \<Rightarrow> point list \<Rightarrow> cluster list \<Rightarrow> error + cluster list" where
  "cluster_loop M min_distance_m [] clusters = Inr clusters"
| "cluster_loop M min_distance_m ((lat, lon) # points) clusters =
     (case scan_clusters M lat lon min_distance_m clusters of
        Inl e \<Rightarrow> Inl e
      | Inr (assigned, clusters') \<Rightarrow>
          cluster_loop M min_distance_m points
            (if assigned then clusters' else clusters' @ [(lat, lon, 1)]))"

definition cluster_points :: "math_module \<Rightarrow> point list \<Rightarrow> real \<Rightarrow> error + cluster list" where
  "cluster_points M points min_distance_m =
     (if points = [] then Inr []
      else if min_distance_m \<le> 0 then Inr (map (\<lambda>(lat, lon). (lat, lon, 1)) points)
      else cluster_loop M min_distance_m points [])"

text \<open>The arithmetic mean of a list of numbers, the reference for the running mean.\<close>

definition mean :: "real list \<Rightarrow> real" where
  "mean xs = sum_list xs / real (length xs)"

section \<open>Reading the points file\<close>

text \<open>
  Text is a list of characters; the whitespace and the line boundaries are those Python
  knows among the ASCII characters. The file system is a map from a path to the text of
  the regular file there.
\<close>

definition is_space :: "char \<Rightarrow> bool" where
  "is_space c = (c \<in> set [CHR 0x20, CHR 0x09, CHR 0x0A, CHR 0x0B, CHR 0x0C, CHR 0x0D,
                           CHR 0x1C, CHR 0x1D, CHR 0x1E, CHR 0x1F])"

definition is_linebreak :: "char \<Rightarrow> bool" where
  "is_linebreak c = (c \<in> set [CHR 0x0A, CHR 0x0B, CHR 0x0C, CHR 0x0D, CHR 0x1C, CHR 0x1D, CHR 0x1E])"

definition strip :: "string \<Rightarrow> string" where
  "strip s = rev (dropWhile is_space (rev (dropWhile is_space s)))"

fun splitlines_from :: "string \<Rightarrow> string \<Rightarrow> string list" where
  "splitlines_from cur [] = (if cur = [] then [] else [rev cur])"
| "splitlines_from cur (c # cs) =
     (if c = CHR 0x0D then
        (case cs of
           c' # cs' \<Rightarrow>
             if c' = CHR 0x0A then rev cur # splitlines_from [] cs'
             else rev cur # splitlines_from [] cs
         | [] \<Rightarrow> rev cur # splitlines_from [] cs)
      else if is_linebreak c then rev cur # splitlines_from [] cs
      else splitlines_from (c # cur) cs)"

definition splitlines :: "string \<Rightarrow> string list" where
  "splitlines s = splitlines_from [] s"

text \<open>\<open>line.split(",")\<close>: the fields between the commas, at least one.\<close>

fun split_comma :: "string \<Rightarrow> string list" where
  "split_comma [] = [[]]"
| "split_comma (c # cs) =
     (if c = CHR '','' then [] # split_comma cs
      else (case split_comma cs of
              p # ps \<Rightarrow> (c # p) # ps
            | [] \<Rightarrow> [[c]]))"

definition startswith_hash :: "string \<Rightarrow> bool" where
  "startswith_hash line = (case line of [] \<Rightarrow> False | c # _ \<Rightarrow> c = CHR ''#'')"

text \<open>The loop of \<open>_read_points_csv\<close> over the raw lines, \<open>points\<close> the list built so far.\<close>

fun read_points_lines ::
  "(string \<Rightarrow> real option) \<Rightarrow> string list \<Rightarrow> point list \<Rightarrow> error + point list" where
  "read_points_lines to_float [] points = Inr points"
| "read_points_lines to_float (raw # rest) points =
     (let line = strip raw in
      if line = [] \<or> startswith_hash line then read_points_lines to_float rest points
      else
        (let parts = map strip (split_comma line) in
         if length parts \<noteq> 2 then Inl (ValueError (InvalidPointsLine raw))
         else
           (case py_float to_float (parts ! 0) of
              Inl e \<Rightarrow> Inl e
            | Inr lat \<Rightarrow>
                (case py_float to_float (parts ! 1) of
                   Inl e \<Rightarrow> Inl e
                 | Inr lon \<Rightarrow> read_points_lines to_float rest (points @ [(lat, lon)])))))"

definition read_points_csv ::
  "(string \<Rightarrow> real option) \<Rightarrow> (string \<Rightarrow> string option) \<Rightarrow> string \<Rightarrow> error + point list" where
  "read_points_csv to_float fs path =
     (case fs path of
        None \<Rightarrow> Inl (FileNotFoundError path)
      | Some content \<Rightarrow> read_points_lines to_float (splitlines content) [])"

section \<open>Regions from points and from the command line\<close>

definition auto_region_from_points :: "point list \<Rightarrow> error + Region" where
  "auto_region_from_points points =
     (if points = [] then Inr (normalized DEFAULT_WORLD_REGION)
      else
        (let lats = map fst points; lons = map snd points in
         case py_min lats of Inl e \<Rightarrow> Inl e | Inr lat0 \<Rightarrow>
        (case py_max lats of Inl e \<Rightarrow> Inl e | Inr lat1 \<Rightarrow>
        (case py_min lons of Inl e \<Rightarrow> Inl e | Inr lon0 \<Rightarrow>
        (case py_max lons of Inl e \<Rightarrow> Inl e | Inr lon1 \<Rightarrow>
           if lon1 - lon0 > 180 then
             Inr (normalized (Region (- 180.0) 180.0 (max (- 80.0) (lat0 - 5.0)) (min 80.0 (lat1 + 5.0))))
           else
             (let lat_span = max 0.01 (lat1 - lat0);
                  lon_span = max 0.01 (lon1 - lon0);
                  lat_pad = max 0.5 (lat_span * 0.35);
                  lon_pad = max 0.5 (lon_span * 0.35)
              in Inr (normalized
                   (Region (lon0 - lon_pad) (lon1 + lon_pad) (lat0 - lat_pad) (lat1 + lat_pad)))))))))"

text \<open>\<open>[float(v) for v in vals]\<close>: the first value that does not parse ends it.\<close>

fun floats_of :: "(string \<Rightarrow> real option) \<Rightarrow> string list \<Rightarrow> error + real list" where
  "floats_of to_float [] = Inr []"
| "floats_of to_float (v # vs) =
     (case py_float to_float v of
        Inl e \<Rightarrow> Inl e
      | Inr x \<Rightarrow> (case floats_of to_float vs of Inl e \<Rightarrow> Inl e | Inr xs \<Rightarrow> Inr (x # xs)))"

definition float_list ::
  "(string \<Rightarrow> real option) \<Rightarrow> string list \<Rightarrow> nat \<Rightarrow> string \<Rightarrow> error + real list" where
  "float_list to_float vals count name =
     (if length vals \<noteq> count then Inl (ArgumentTypeError name)
      else (case floats_of to_float vals of
              Inl e \<Rightarrow> Inl (ArgumentTypeError name)
            | Inr xs \<Rightarrow> Inr xs))"

definition parse_region :: "(string \<Rightarrow> real option) \<Rightarrow> string list \<Rightarrow> error + Region" where
  "parse_region to_float values =
     (case float_list to_float values 4 ''region'' of
        Inl e \<Rightarrow> Inl e
      | Inr xs \<Rightarrow>
          (case xs of
             [lon_min, lon_max, lat_min, lat_max] \<Rightarrow>
               Inr (normalized (Region lon_min lon_max lat_min lat_max))
           | _ \<Rightarrow> Inl (ValueError UnpackError)))"

section \<open>The detail renderer's geometry\<close>

text \<open>
  \<open>render_map\<close> starts by normalizing the two regions it is given; everything it draws
  uses the normalized ones.
\<close>

definition render_map_regions :: "Region \<Rightarrow> Region \<Rightarrow> Region \<times> Region" where
  "render_map_regions world_region zoom_region = (normalized world_region, normalized zoom_region)"

text \<open>
  Inset placement in \<open>render_map\<close>: the lower-left corner \<open>(x0, y0)\<close> of the inset panel from
  the marker's figure-fraction position and the theme's \<open>inset_size\<close> and \<open>inset_margin\<close>.
\<close>

definition inset_corner :: "real \<Rightarrow> real \<Rightarrow> real \<Rightarrow> real \<Rightarrow> real \<times> real" where
  "inset_corner x_fig y_fig inset_size inset_margin =
     (let x0 = min (max (x_fig + inset_margin) inset_margin) (1 - inset_size - inset_margin);
          y0 = min (max (y_fig + inset_margin) inset_margin) (1 - inset_size - inset_margin)
      in (x0, y0))"

text \<open>The same placement in \<open>main.py\<close>, with its constants \<open>inset_size = 0.30\<close> and \<open>0.02\<close>.\<close>

definition main_inset_corner :: "real \<Rightarrow> real \<Rightarrow> real \<times> real" where
  "main_inset_corner x_fig y_fig =
     (let inset_size = 0.30;
          x0 = min (max (x_fig + 0.02) 0.02) (1 - inset_size - 0.02);
          y0 = min (max (y_fig + 0.02) 0.02) (1 - inset_size - 0.02)
      in (x0, y0))"

text \<open>
  A bounding box in figure fractions, as \<open>ax_inset.get_position()\<close> returns it: \<open>(x0, y0)\<close>
  is the lower-left corner and \<open>(x1, y1)\<close> the upper-right one, the origin of the figure
  being its lower-left corner (\<open>y\<close> grows upwards).
\<close>

datatype Bbox = Bbox (bbox_x0: real) (bbox_y0: real) (bbox_x1: real) (bbox_y1: real)

text \<open>
  Side detection in \<open>render_map\<close> and \<open>main.py\<close>: the value of \<open>pos\<close> from the inset's
  bounding box and the figure-fraction images \<open>(rx0, ry0)\<close>, \<open>(rx1, ry1)\<close> of the zoom
  rectangle's two corners.
\<close>

definition side_detection :: "Bbox \<Rightarrow> real \<Rightarrow> real \<Rightarrow> real \<Rightarrow> real \<Rightarrow> string" where
  "side_detection inset_bbox rx0 ry0 rx1 ry1 =
     (let rect_xmin = min rx0 rx1; rect_xmax = max rx0 rx1;
          rect_ymin = min ry0 ry1; rect_ymax = max ry0 ry1;
          eps = 0.005
      in if bbox_y0 inset_bbox \<ge> rect_ymax + eps then ''below''
         else if bbox_y1 inset_bbox \<le> rect_ymin - eps then ''above''
         else if bbox_x1 inset_bbox \<le> rect_xmin - eps then ''right''
         else if bbox_x0 inset_bbox \<ge> rect_xmax + eps then ''left''
         else ''above'')"

text \<open>
  Where \<open>render_map\<close> anchors the title for a value of \<open>pos\<close>: the point of the rectangle,
  the alignment and the offset in points.
\<close>

definition title_anchor :: "string \<Rightarrow> Region \<Rightarrow> (real \<times> real) \<times> (string \<times> string) \<times> (int \<times> int)" where
  "title_anchor pos zoom_region =
     (if pos = ''below'' then
        ((minimum_longitude zoom_region, minimum_latitude zoom_region), (''left'', ''top''), (5, - 5))
      else if pos = ''above'' then
        ((minimum_longitude zoom_region, maximum_latitude zoom_region), (''left'', ''bottom''), (5, 5))
      else if pos = ''left'' then
        ((minimum_longitude zoom_region,
          (minimum_latitude zoom_region + maximum_latitude zoom_region) / 2), (''right'', ''center''), (- 5, 0))
      else
        ((maximum_longitude zoom_region,
          (minimum_latitude zoom_region + maximum_latitude zoom_region) / 2), (''left'', ''center''), (5, 0)))"

section \<open>Notions for stating the properties\<close>

text \<open>The member count of a cluster, the third component of the triple.\<close>

definition member_count :: "cluster \<Rightarrow> int" where
  "member_count c = snd (snd c)"

text \<open>
  A point is near the mean of the points before it: its great-circle distance to that mean,
  which the scan computes when it takes place, is returned and is at most \<open>d\<close>.
\<close>

definition near_mean :: "math_module \<Rightarrow> real \<Rightarrow> point \<Rightarrow> point list \<Rightarrow> bool" where
  "near_mean M d p pre =
     (case haversine_m M (fst p) (snd p) (mean (map fst pre)) (mean (map snd pre)) of
        Inl e \<Rightarrow> False
      | Inr h \<Rightarrow> h \<le> d)"

text \<open>
  The points file, in the words of its format: the lines that are skipped, the lines that
  remain, the comma-separated fields of a line, a line of exactly two numeric fields, the
  point such a line stands for, and the error another line ends with. \<open>sample_float\<close> is a
  parser for the examples; it agrees with \<open>float\<close> on the strings it accepts.
\<close>

definition sample_float :: "string \<Rightarrow> real option" where
  "sample_float =
     map_of [(''52.0'', 52.0), (''-8.0'', - 8.0), (''10'', 10), (''0'', 0), (''1'', 1), (''3'', 3), (''5'', 5)]"

definition is_skipped :: "string \<Rightarrow> bool" where
  "is_skipped raw = (strip raw = [] \<or> startswith_hash (strip raw))"

definition remaining_lines :: "string \<Rightarrow> string list" where
  "remaining_lines content = filter (\<lambda>raw. \<not> is_skipped raw) (splitlines content)"

definition fields :: "string \<Rightarrow> string list" where
  "fields raw = map strip (split_comma (strip raw))"

definition two_numeric_fields :: "(string \<Rightarrow> real option) \<Rightarrow> string \<Rightarrow> bool" where
  "two_numeric_fields to_float raw =
     (length (fields raw) = 2 \<and> to_float (fields raw ! 0) \<noteq> None \<and> to_float (fields raw ! 1) \<noteq> None)"

definition line_point :: "(string \<Rightarrow> real option) \<Rightarrow> string \<Rightarrow> point" where
  "line_point to_float raw = (the (to_float (fields raw ! 0)), the (to_float (fields raw ! 1)))"

definition line_error :: "(string \<Rightarrow> real option) \<Rightarrow> string \<Rightarrow> value_error" where
  "line_error to_float raw =
     (if length (fields raw) \<noteq> 2 then InvalidPointsLine raw
      else if to_float (fields raw ! 0) = None then CouldNotConvert (fields raw ! 0)
      else CouldNotConvert (fields raw ! 1))"

text \<open>
  What the properties of the distance need of the \<open>math\<close> module: \<open>radians\<close> and \<open>sin\<close> are
  odd functions, \<open>sqrt\<close> is 0 at 0 and never negative, and \<open>asin\<close> is 0 at 0. The functions
  of an IEEE 754 platform are of this kind.
\<close>

definition math_sane :: "math_module \<Rightarrow> bool" where
  "math_sane M =
     ((\<forall>x. m_radians M (- x) = - m_radians M x)
      \<and> (\<forall>x. m_sin M (- x) = - m_sin M x)
      \<and> m_sqrt M 0 = 0
      \<and> (\<forall>x. 0 \<le> x \<longrightarrow> 0 \<le> m_sqrt M x)
      \<and> m_asin M 0 = 0)"

text \<open>The module with exact results.\<close>

definition exact_math :: math_module where
  "exact_math =
     \<lparr>m_radians = (\<lambda>x. x * pi / 180), m_sin = sin, m_cos = cos, m_sqrt = sqrt, m_asin = arcsin\<rparr>"



text \<open>
  The inset's bounding box lies entirely above, or entirely below, the rectangle whose
  corners have the heights \<open>ry0\<close> and \<open>ry1\<close>, with a margin \<open>m\<close> between them.
\<close>

definition inset_entirely_above :: "Bbox \<Rightarrow> real \<Rightarrow> real \<Rightarrow> real \<Rightarrow> bool" where
  "inset_entirely_above inset_bbox ry0 ry1 m =
     (max ry0 ry1 + m \<le> bbox_y0 inset_bbox \<and> max ry0 ry1 + m \<le> bbox_y1 inset_bbox)"

definition inset_entirely_below :: "Bbox \<Rightarrow> real \<Rightarrow> real \<Rightarrow> real \<Rightarrow> bool" where
  "inset_entirely_below inset_bbox ry0 ry1 m =
     (bbox_y0 inset_bbox \<le> min ry0 ry1 - m \<and> bbox_y1 inset_bbox \<le> min ry0 ry1 - m)"

section \<open>Lemmas: regions\<close>

lemma normalized_lon: "minimum_longitude (normalized r) \<le> maximum_longitude (normalized r)"
  by (simp add: normalized_def sorted2_def split: prod.splits)

lemma normalized_lat: "minimum_latitude (normalized r) \<le> maximum_latitude (normalized r)"
  by (simp add: normalized_def sorted2_def split: prod.splits)

lemma normalized_swap: "normalized (Region b a d c) = normalized (Region a b c d)"
  by (simp add: normalized_def sorted2_def)

lemma parse_region_normalized:
  "parse_region to_float vals = Inr r \<Longrightarrow> \<exists>a b c d. r = normalized (Region a b c d)"
  by (auto simp: parse_region_def split: sum.splits list.splits)

lemma auto_region_normalized:
  "auto_region_from_points ps = Inr r \<Longrightarrow> \<exists>r0. r = normalized r0"
  by (auto simp: auto_region_from_points_def Let_def split: sum.splits if_splits)

section \<open>Lemmas: the great-circle distance\<close>

lemma sin_half_sq: "(sin (w / 2))\<^sup>2 = (1 - cos w) / (2::real)"
  using cos_double_sin [of "w / 2"] by simp

lemma hav_arg_nonneg:
  fixes x y z :: real
  shows "0 \<le> (sin ((y - x) / 2))\<^sup>2 + cos x * cos y * (sin z)\<^sup>2"
proof (cases "0 \<le> cos x * cos y")
  case True
  then have "0 \<le> cos x * cos y * (sin z)\<^sup>2" by simp
  then show ?thesis by simp
next
  case False
  then have neg: "cos x * cos y \<le> 0" by simp
  have t1: "(sin z)\<^sup>2 \<le> 1"
    using sin_squared_eq [of z] zero_le_power2 [of "cos z"] by linarith
  have "cos x * cos y * 1 \<le> cos x * cos y * (sin z)\<^sup>2"
    using t1 neg by (rule mult_left_mono_neg)
  then have low: "cos x * cos y \<le> cos x * cos y * (sin z)\<^sup>2" by simp
  have "(sin ((y - x) / 2))\<^sup>2 + cos x * cos y = (1 + cos (x + y)) / 2"
    by (simp add: sin_half_sq cos_diff cos_add field_simps)
  moreover have "0 \<le> 1 + cos (x + y)"
    using cos_ge_minus_one [of "x + y"] by linarith
  then have "0 \<le> (1 + cos (x + y)) / 2" by simp
  ultimately show ?thesis using low by linarith
qed

lemma math_sane_exact: "math_sane exact_math"
  by (simp add: math_sane_def exact_math_def)

lemma haversine_value:
  assumes "0 \<le> (m_sin M ((m_radians M lat2 - m_radians M lat1) / 2))\<^sup>2
      + m_cos M (m_radians M lat1) * m_cos M (m_radians M lat2) * (m_sin M (m_radians M (lon2 - lon1) / 2))\<^sup>2"
    and "0 \<le> m_sqrt M ((m_sin M ((m_radians M lat2 - m_radians M lat1) / 2))\<^sup>2
      + m_cos M (m_radians M lat1) * m_cos M (m_radians M lat2) * (m_sin M (m_radians M (lon2 - lon1) / 2))\<^sup>2)"
  shows "haversine_m M lat1 lon1 lat2 lon2 =
    Inr (2 * 6371000 * m_asin M (min 1 (m_sqrt M ((m_sin M ((m_radians M lat2 - m_radians M lat1) / 2))\<^sup>2
      + m_cos M (m_radians M lat1) * m_cos M (m_radians M lat2) * (m_sin M (m_radians M (lon2 - lon1) / 2))\<^sup>2))))"
  using assms by (auto simp: haversine_m_def Let_def math_sqrt_def math_asin_def)

lemma haversine_exact_total:
  "\<exists>h. haversine_m exact_math lat1 lon1 lat2 lon2 = Inr h \<and> 0 \<le> h \<and> h \<le> pi * 6371000"
proof -
  define a where "a = (m_sin exact_math ((m_radians exact_math lat2 - m_radians exact_math lat1) / 2))\<^sup>2
      + m_cos exact_math (m_radians exact_math lat1) * m_cos exact_math (m_radians exact_math lat2)
        * (m_sin exact_math (m_radians exact_math (lon2 - lon1) / 2))\<^sup>2"
  have a0: "0 \<le> a"
    unfolding a_def by (simp only: exact_math_def math_module.select_convs) (rule hav_arg_nonneg)
  have q: "m_sqrt exact_math a = sqrt a" and as: "m_asin exact_math = arcsin"
    by (simp_all add: exact_math_def)
  define s where "s = min 1 (sqrt a)"
  have s0: "0 \<le> s" and s1: "s \<le> 1" using a0 by (simp_all add: s_def)
  have "haversine_m exact_math lat1 lon1 lat2 lon2
        = Inr (2 * 6371000 * m_asin exact_math (min 1 (m_sqrt exact_math a)))"
    unfolding a_def
    by (rule haversine_value) (use a0 q in \<open>simp_all add: a_def [symmetric]\<close>)
  then have h: "haversine_m exact_math lat1 lon1 lat2 lon2 = Inr (2 * 6371000 * arcsin s)"
    by (simp add: q as s_def)
  have lo: "0 \<le> arcsin s" using arcsin_le_arcsin [of 0 s] s0 s1 by simp
  have hi: "arcsin s \<le> pi / 2" using arcsin_bounded [of s] s0 s1 by simp
  show ?thesis using h lo hi by simp
qed

lemma haversine_self:
  assumes "math_sane M"
  shows "haversine_m M lat lon lat lon = Inr 0"
proof -
  have r0: "m_radians M 0 = 0" and s0: "m_sin M 0 = 0"
    and q0: "m_sqrt M 0 = 0" and a0: "m_asin M 0 = 0"
    using assms by (auto simp: math_sane_def dest: spec [where x = 0])
  show ?thesis
    by (simp add: haversine_m_def math_sqrt_def math_asin_def r0 s0 q0 a0)
qed





lemma exact_latitude_cos:
  assumes "- 90 \<le> lat" and "lat \<le> 90"
  shows "0 \<le> m_cos exact_math (m_radians exact_math lat)"
proof -
  have "pi * (- 90) \<le> pi * lat" and "pi * lat \<le> pi * 90"
    using assms by (simp_all only: mult_le_cancel_left_pos [OF pi_gt_zero])
  then have "- (pi / 2) \<le> lat * pi / 180" and "lat * pi / 180 \<le> pi / 2"
    by (simp_all add: field_simps)
  then have "0 \<le> cos (lat * pi / 180)" by (rule cos_ge_zero)
  then show ?thesis by (simp add: exact_math_def)
qed

lemma haversine_far: "haversine_m exact_math 0 180 0 0 = Inr (6371000 * pi)"
  by (simp add: haversine_m_def exact_math_def math_sqrt_def math_asin_def)

lemma haversine_far_gt: "\<not> 6371000 * pi \<le> 1"
  using pi_ge_two by linarith









section \<open>Lemmas: clustering\<close>

lemma near_mean_large: "pi * 6371000 \<le> d \<Longrightarrow> near_mean exact_math d p pre"
  using haversine_exact_total [of "fst p" "snd p" "mean (map fst pre)" "mean (map snd pre)"]
  by (auto simp: near_mean_def)

lemma near_meanD:
  assumes "near_mean M d p pre"
  shows "\<exists>h. haversine_m M (fst p) (snd p) (mean (map fst pre)) (mean (map snd pre)) = Inr h \<and> h \<le> d"
  using assms by (auto simp: near_mean_def split: sum.splits)

lemma member_count_triple [simp]: "member_count (lat, lon, n) = n"
  by (simp add: member_count_def)

lemma scan_clusters_inv:
  assumes "\<forall>c\<in>set cs. 1 \<le> member_count c"
    and "scan_clusters M lat lon d cs = Inr (a, cs')"
  shows "length cs' = length cs
         \<and> sum_list (map member_count cs') = sum_list (map member_count cs) + (if a then 1 else 0)
         \<and> (\<forall>c\<in>set cs'. 1 \<le> member_count c)"
  using assms
proof (induction cs arbitrary: a cs')
  case Nil
  then show ?case by auto
next
  case (Cons c cs)
  obtain clat clon n where c: "c = (clat, clon, n)" by (cases c) auto
  from Cons.prems(1) c have n1: "1 \<le> n" by simp
  from Cons.prems(1) have rest: "\<forall>c\<in>set cs. 1 \<le> member_count c" by simp
  from Cons.prems(2) c obtain h where h: "haversine_m M lat lon clat clon = Inr h"
    by (auto split: sum.splits)
  show ?case
  proof (cases "h \<le> d")
    case True
    then show ?thesis
      using Cons.prems h c n1
      by (auto simp: truediv_def Let_def split: if_splits)
  next
    case False
    with Cons.prems(2) h c obtain a1 cs1 where
      r: "scan_clusters M lat lon d cs = Inr (a1, cs1)" and a: "a = a1" and cs': "cs' = (clat, clon, n) # cs1"
      by (auto split: sum.splits)
    from Cons.IH [OF rest r] show ?thesis
      using a cs' c n1 by auto
  qed
qed

lemma cluster_loop_inv:
  assumes "\<forall>c\<in>set cs. 1 \<le> member_count c"
    and "cluster_loop M d ps cs = Inr cs'"
  shows "sum_list (map member_count cs') = sum_list (map member_count cs) + int (length ps)
         \<and> (\<forall>c\<in>set cs'. 1 \<le> member_count c)
         \<and> length cs' \<le> length cs + length ps"
  using assms
proof (induction ps arbitrary: cs)
  case Nil
  then show ?case by simp
next
  case (Cons p ps)
  obtain lat lon where p: "p = (lat, lon)" by (cases p) auto
  from Cons.prems(2) p obtain a cs1 where
    r: "scan_clusters M lat lon d cs = Inr (a, cs1)"
    and r': "cluster_loop M d ps (if a then cs1 else cs1 @ [(lat, lon, 1)]) = Inr cs'"
    by (auto split: sum.splits)
  from scan_clusters_inv [OF Cons.prems(1) r] have
    l: "length cs1 = length cs"
    and s: "sum_list (map member_count cs1) = sum_list (map member_count cs) + (if a then 1 else 0)"
    and q: "\<forall>c\<in>set cs1. 1 \<le> member_count c"
    by simp_all
  define cs2 where "cs2 = (if a then cs1 else cs1 @ [(lat, lon, 1)])"
  have q2: "\<forall>c\<in>set cs2. 1 \<le> member_count c"
    using q by (auto simp: cs2_def)
  have s2: "sum_list (map member_count cs2) = sum_list (map member_count cs) + 1"
    using s by (simp add: cs2_def)
  have l2: "length cs2 \<le> length cs + 1"
    using l by (simp add: cs2_def)
  from r' have "cluster_loop M d ps cs2 = Inr cs'" by (simp add: cs2_def)
  from Cons.IH [OF q2 this] show ?case using s2 l2 by simp
qed

lemma mean_snoc:
  assumes "xs \<noteq> []"
  shows "(mean xs * of_int (int (length xs)) + x) / of_int (int (length xs) + 1) = mean (xs @ [x])"
proof -
  have "real (length xs) \<noteq> 0" using assms by simp
  then have "mean xs * real (length xs) = sum_list xs" by (simp add: mean_def)
  then show ?thesis by (simp add: mean_def add.commute)
qed

lemma mean_single: "mean [x] = x"
  by (simp add: mean_def)

lemma cluster_loop_single:
  assumes "pre \<noteq> []"
    and "\<forall>k<length rest. near_mean M d (rest ! k) (pre @ take k rest)"
  shows "cluster_loop M d rest [(mean (map fst pre), mean (map snd pre), int (length pre))]
         = Inr [(mean (map fst (pre @ rest)), mean (map snd (pre @ rest)), int (length (pre @ rest)))]"
  using assms
proof (induction rest arbitrary: pre)
  case Nil
  then show ?case by simp
next
  case (Cons p ps)
  obtain lat lon where p: "p = (lat, lon)" by (cases p) auto
  from Cons.prems(2) have "near_mean M d p (pre @ take 0 (p # ps))" by auto
  then obtain h where h: "haversine_m M lat lon (mean (map fst pre)) (mean (map snd pre)) = Inr h"
    and hd: "h \<le> d"
    using near_meanD [of M d p pre] by (auto simp: p)
  have "int (length pre) + 1 \<noteq> 0" by linarith
  then have nz: "(of_int (int (length pre) + 1) :: real) \<noteq> 0"
    using of_int_eq_0_iff [where 'a = real] by blast
  have m1: "(mean (map fst pre) * of_int (int (length pre)) + lat) / of_int (int (length pre) + 1)
            = mean (map fst (pre @ [p]))"
    using mean_snoc [of "map fst pre" lat] Cons.prems(1) by (simp add: p)
  have m2: "(mean (map snd pre) * of_int (int (length pre)) + lon) / of_int (int (length pre) + 1)
            = mean (map snd (pre @ [p]))"
    using mean_snoc [of "map snd pre" lon] Cons.prems(1) by (simp add: p)
  have cnt: "int (length pre) + 1 = int (length (pre @ [p]))" by simp
  have "cluster_loop M d (p # ps) [(mean (map fst pre), mean (map snd pre), int (length pre))]
        = cluster_loop M d ps [(mean (map fst (pre @ [p])), mean (map snd (pre @ [p])), int (length pre) + 1)]"
    using h hd nz m1 m2 by (simp add: p truediv_def Let_def)
  then have step: "cluster_loop M d (p # ps) [(mean (map fst pre), mean (map snd pre), int (length pre))]
        = cluster_loop M d ps [(mean (map fst (pre @ [p])), mean (map snd (pre @ [p])), int (length (pre @ [p])))]"
    unfolding cnt .
  have "\<forall>k<length ps. near_mean M d (ps ! k) ((pre @ [p]) @ take k ps)"
  proof (intro allI impI)
    fix k assume "k < length ps"
    then have "Suc k < length (p # ps)" by simp
    with Cons.prems(2) have "near_mean M d ((p # ps) ! Suc k) (pre @ take (Suc k) (p # ps))" by blast
    then show "near_mean M d (ps ! k) ((pre @ [p]) @ take k ps)" by simp
  qed
  from Cons.IH [OF _ this] have
    "cluster_loop M d ps [(mean (map fst (pre @ [p])), mean (map snd (pre @ [p])), int (length (pre @ [p])))]
     = Inr [(mean (map fst ((pre @ [p]) @ ps)), mean (map snd ((pre @ [p]) @ ps)), int (length ((pre @ [p]) @ ps)))]"
    by simp
  with step show ?case by simp
qed

section \<open>Lemmas: the points file\<close>

lemma read_points_lines_eq:
  "read_points_lines to_float lines acc =
     (case find (\<lambda>raw. \<not> two_numeric_fields to_float raw) (filter (\<lambda>raw. \<not> is_skipped raw) lines) of
        None \<Rightarrow> Inr (acc @ map (line_point to_float) (filter (\<lambda>raw. \<not> is_skipped raw) lines))
      | Some raw \<Rightarrow> Inl (ValueError (line_error to_float raw)))"
proof (induction lines arbitrary: acc)
  case Nil
  then show ?case by simp
next
  case (Cons raw rest)
  show ?case
  proof (cases "is_skipped raw")
    case True
    then have "read_points_lines to_float (raw # rest) acc = read_points_lines to_float rest acc"
      by (simp add: is_skipped_def Let_def)
    then show ?thesis using Cons.IH [of acc] True by (simp split: option.splits)
  next
    case False
    then have ns: "\<not> (strip raw = [] \<or> startswith_hash (strip raw))" by (simp add: is_skipped_def)
    show ?thesis
    proof (cases "two_numeric_fields to_float raw")
      case True
      then obtain lat lon where l: "length (fields raw) = 2"
        and a: "to_float (fields raw ! 0) = Some lat" and b: "to_float (fields raw ! 1) = Some lon"
        by (auto simp: two_numeric_fields_def)
      have "read_points_lines to_float (raw # rest) acc = read_points_lines to_float rest (acc @ [(lat, lon)])"
        using ns l a b by (simp add: Let_def py_float_def fields_def)
      then show ?thesis
        using Cons.IH [of "acc @ [(lat, lon)]"] False True a b
        by (simp add: line_point_def split: option.splits)
    next
      case bad: False
      have "read_points_lines to_float (raw # rest) acc = Inl (ValueError (line_error to_float raw))"
        using ns bad
        by (auto simp: Let_def py_float_def fields_def two_numeric_fields_def line_error_def split: option.splits)
      then show ?thesis using False bad by (simp split: option.splits)
    qed
  qed
qed

section \<open>The claims\<close>

text \<open>
  Claim C1 (as amended). The labels of the side detection name the side of the rectangle
  on which the title goes, the one away from the inset: an inset panel whose bounding box
  lies entirely above the zoom rectangle, with a margin greater than 0.005, gets the label
  \<open>below\<close>; one lying entirely below the rectangle, with such a margin, gets \<open>above\<close>; and
  when none of the four conditions of the chain holds the label is \<open>above\<close>.
\<close>

theorem side_detection_labels:
  "(0.005 < m \<and> inset_entirely_above inset_bbox ry0 ry1 m
      \<longrightarrow> side_detection inset_bbox rx0 ry0 rx1 ry1 = ''below'')
   \<and> (0.005 < m \<and> inset_entirely_below inset_bbox ry0 ry1 m
      \<longrightarrow> side_detection inset_bbox rx0 ry0 rx1 ry1 = ''above'')
   \<and> (\<not> bbox_y0 inset_bbox \<ge> max ry0 ry1 + 0.005
      \<and> \<not> bbox_y1 inset_bbox \<le> min ry0 ry1 - 0.005
      \<and> \<not> bbox_x1 inset_bbox \<le> min rx0 rx1 - 0.005
      \<and> \<not> bbox_x0 inset_bbox \<ge> max rx0 rx1 + 0.005
      \<longrightarrow> side_detection inset_bbox rx0 ry0 rx1 ry1 = ''above'')"
  by (auto simp: side_detection_def inset_entirely_above_def inset_entirely_below_def Let_def)

text \<open>
  The claim at three panels around the rectangle with the corners \<open>(0.5, 0.5)\<close> and
  \<open>(0.6, 0.6)\<close>: one above it, one below it, one overlapping it.
\<close>

theorem side_detection_labels_witness:
  "(0.005 :: real) < 0.1
   \<and> inset_entirely_above (Bbox 0.1 0.7 0.4 1.0) 0.5 0.6 0.1
   \<and> side_detection (Bbox 0.1 0.7 0.4 1.0) 0.5 0.5 0.6 0.6 = ''below''
   \<and> inset_entirely_below (Bbox 0.1 0.1 0.4 0.4) 0.5 0.6 0.1
   \<and> side_detection (Bbox 0.1 0.1 0.4 0.4) 0.5 0.5 0.6 0.6 = ''above''
   \<and> side_detection (Bbox 0.4 0.4 0.7 0.7) 0.5 0.5 0.6 0.6 = ''above''"
  using
    side_detection_labels [of "0.1" "Bbox 0.1 0.7 0.4 1.0" "0.5" "0.6" "0.5" "0.6"]
    side_detection_labels [of "0.1" "Bbox 0.1 0.1 0.4 0.4" "0.5" "0.6" "0.5" "0.6"]
    side_detection_labels [of "0.1" "Bbox 0.4 0.4 0.7 0.7" "0.5" "0.6" "0.5" "0.6"]
  by (simp add: inset_entirely_above_def inset_entirely_below_def)

text \<open>
  The claim as first stated fails: a panel entirely below the rectangle, with the margin 0.1,
  does not get the label \<open>below\<close>.
\<close>

theorem side_detection_below_counterexample:
  "(0.005 :: real) < 0.1
   \<and> inset_entirely_below (Bbox 0.1 0.1 0.4 0.4) 0.5 0.6 0.1
   \<and> side_detection (Bbox 0.1 0.1 0.4 0.4) 0.5 0.5 0.6 0.6 = ''above''
   \<and> side_detection (Bbox 0.1 0.1 0.4 0.4) 0.5 0.5 0.6 0.6 \<noteq> ''below''"
  by (simp add: inset_entirely_below_def side_detection_def)

text \<open>
  Claim C2 (as amended). For any four numbers, \<open>Region(a, b, c, d).normalized()\<close> has
  minimum \<open>\<le>\<close> maximum on both axes, whatever the order of the inputs, and
  \<open>Region(1, 0, 5, 3).normalized()\<close> is \<open>Region(0, 1, 3, 5)\<close>. The regions that reach the
  renderers are normalized ones: what \<open>parse_region\<close> and \<open>_auto_region_from_points\<close>
  return, and the two regions \<open>render_map\<close> works with, have minimum \<open>\<le>\<close> maximum on both
  axes.
\<close>

theorem normalized_min_le_max:
  "minimum_longitude (normalized (Region a b c d)) \<le> maximum_longitude (normalized (Region a b c d))
   \<and> minimum_latitude (normalized (Region a b c d)) \<le> maximum_latitude (normalized (Region a b c d))
   \<and> normalized (Region 1 0 5 3) = Region 0 1 3 5
   \<and> (parse_region to_float vals = Inr r \<longrightarrow>
          minimum_longitude r \<le> maximum_longitude r \<and> minimum_latitude r \<le> maximum_latitude r)
   \<and> (auto_region_from_points ps = Inr r' \<longrightarrow>
          minimum_longitude r' \<le> maximum_longitude r' \<and> minimum_latitude r' \<le> maximum_latitude r')
   \<and> (render_map_regions world_region zoom_region = (w, z) \<longrightarrow>
          minimum_longitude w \<le> maximum_longitude w \<and> minimum_latitude w \<le> maximum_latitude w
          \<and> minimum_longitude z \<le> maximum_longitude z \<and> minimum_latitude z \<le> maximum_latitude z)"
proof -
  have p: "parse_region to_float vals = Inr r \<Longrightarrow>
          minimum_longitude r \<le> maximum_longitude r \<and> minimum_latitude r \<le> maximum_latitude r"
    using parse_region_normalized [of to_float vals r] normalized_lon normalized_lat by auto
  have q: "auto_region_from_points ps = Inr r' \<Longrightarrow>
          minimum_longitude r' \<le> maximum_longitude r' \<and> minimum_latitude r' \<le> maximum_latitude r'"
    using auto_region_normalized [of ps r'] normalized_lon normalized_lat by auto
  have n: "normalized (Region 1 0 5 3) = Region 0 1 3 5"
    by (simp add: normalized_def sorted2_def)
  have m: "render_map_regions world_region zoom_region = (w, z) \<Longrightarrow>
          minimum_longitude w \<le> maximum_longitude w \<and> minimum_latitude w \<le> maximum_latitude w
          \<and> minimum_longitude z \<le> maximum_longitude z \<and> minimum_latitude z \<le> maximum_latitude z"
    using normalized_lon normalized_lat by (auto simp: render_map_regions_def)
  show ?thesis
    using p q n m normalized_lon normalized_lat by blast
qed

text \<open>
  The claim at reversed bounds from the command line, at the single point \<open>(52, -8)\<close> and at
  reversed bounds given to \<open>render_map\<close>.
\<close>

theorem normalized_min_le_max_witness:
  "parse_region sample_float [''1'', ''0'', ''5'', ''3''] = Inr (Region 0 1 3 5)
   \<and> minimum_longitude (Region 0 1 3 5) \<le> maximum_longitude (Region 0 1 3 5)
   \<and> minimum_latitude (Region 0 1 3 5) \<le> maximum_latitude (Region 0 1 3 5)
   \<and> auto_region_from_points [(52, - 8)] = Inr (Region (- 8.5) (- 7.5) 51.5 52.5)
   \<and> minimum_longitude (Region (- 8.5) (- 7.5) 51.5 52.5) \<le> maximum_longitude (Region (- 8.5) (- 7.5) 51.5 52.5)
   \<and> render_map_regions (Region 1 0 5 3) (Region 2 1 4 3) = (Region 0 1 3 5, Region 1 2 3 4)
   \<and> minimum_longitude (Region 1 2 3 4) \<le> maximum_longitude (Region 1 2 3 4)"
proof -
  have a: "parse_region sample_float [''1'', ''0'', ''5'', ''3''] = Inr (Region 0 1 3 5)"
    by (simp add: parse_region_def float_list_def py_float_def sample_float_def normalized_def sorted2_def)
  have b: "auto_region_from_points [(52, - 8)] = Inr (Region (- 8.5) (- 7.5) 51.5 52.5)"
    by (simp add: auto_region_from_points_def normalized_def sorted2_def)
  have c: "render_map_regions (Region 1 0 5 3) (Region 2 1 4 3) = (Region 0 1 3 5, Region 1 2 3 4)"
    by (simp add: render_map_regions_def normalized_def sorted2_def)
  show ?thesis
    using a b c
      normalized_min_le_max [where a = 1 and b = 0 and c = 5 and d = 3
        and to_float = sample_float and vals = "[''1'', ''0'', ''5'', ''3'']" and r = "Region 0 1 3 5"
        and ps = "[(52, - 8)]" and r' = "Region (- 8.5) (- 7.5) 51.5 52.5"
        and world_region = "Region 1 0 5 3" and zoom_region = "Region 2 1 4 3"
        and w = "Region 0 1 3 5" and z = "Region 1 2 3 4"]
    by simp
qed

text \<open>
  The claim as first stated fails: the constructor keeps its arguments as they are, so
  \<open>Region(1, 0, 5, 3)\<close> has its minimum above its maximum on both axes.
\<close>

theorem Region_constructor_counterexample:
  "minimum_longitude (Region 1 0 5 3) = 1 \<and> maximum_longitude (Region 1 0 5 3) = 0
   \<and> \<not> minimum_longitude (Region 1 0 5 3) \<le> maximum_longitude (Region 1 0 5 3)
   \<and> \<not> minimum_latitude (Region 1 0 5 3) \<le> maximum_latitude (Region 1 0 5 3)"
  by simp

text \<open>
  Claim C3. Clustering with \<open>min_distance_m \<le> 0\<close> is a no-op: for every list of points it
  returns as many clusters as there are points, the cluster at each position being the
  point at that position with the member count 1.
\<close>

theorem cluster_points_noop:
  "min_distance_m \<le> 0 \<Longrightarrow>
     \<exists>cs. cluster_points M points min_distance_m = Inr cs
        \<and> length cs = length points
        \<and> (\<forall>i<length points. cs ! i = (fst (points ! i), snd (points ! i), 1))"
  by (auto simp: cluster_points_def case_prod_beta)

text \<open>The claim at three points, two of them equal, and the distance 0.\<close>

theorem cluster_points_noop_witness:
  "(0 :: real) \<le> 0
   \<and> cluster_points exact_math [(1, 2), (1, 2), (3, 4)] 0 = Inr [(1, 2, 1), (1, 2, 1), (3, 4, 1)]
   \<and> length [(1, 2, 1), (1, 2, 1), (3 :: real, 4 :: real, 1 :: int)] = length [(1, 2), (1, 2), (3 :: real, 4 :: real)]"
  using cluster_points_noop [of 0 exact_math "[(1, 2), (1, 2), (3, 4)]"]
  by (simp add: cluster_points_def)

text \<open>
  Claim C4 (as amended). For every non-empty list of points and every positive
  \<open>min_distance_m\<close> that is at least the great-circle distance of each point after the first
  to the mean of the points before it (the distances of the scan), clustering returns exactly
  one cluster: its member count is the number of points and its centroid is the arithmetic
  mean of all the points, component by component.
\<close>

theorem cluster_points_single:
  assumes "points \<noteq> []" and "0 < min_distance_m"
    and "\<forall>k. 0 < k \<and> k < length points \<longrightarrow> near_mean M min_distance_m (points ! k) (take k points)"
  shows "cluster_points M points min_distance_m
         = Inr [(mean (map fst points), mean (map snd points), int (length points))]"
proof -
  obtain p ps where pts: "points = p # ps" using assms(1) by (cases points) auto
  obtain lat lon where p: "p = (lat, lon)" by (cases p) auto
  have "\<forall>k<length ps. near_mean M min_distance_m (ps ! k) ([p] @ take k ps)"
  proof (intro allI impI)
    fix k assume "k < length ps"
    then have "0 < Suc k \<and> Suc k < length points" by (simp add: pts)
    with assms(3) have "near_mean M min_distance_m (points ! Suc k) (take (Suc k) points)" by blast
    then show "near_mean M min_distance_m (ps ! k) ([p] @ take k ps)" by (simp add: pts)
  qed
  from cluster_loop_single [OF _ this] have
    "cluster_loop M min_distance_m ps [(mean (map fst [p]), mean (map snd [p]), int (length [p]))]
     = Inr [(mean (map fst ([p] @ ps)), mean (map snd ([p] @ ps)), int (length ([p] @ ps)))]"
    by simp
  then show ?thesis using assms(2)
    by (simp add: cluster_points_def pts p mean_single)
qed

text \<open>
  The claim at three points and a distance above half the circumference of the Earth, with
  the exact functions: one cluster of three members at the mean \<open>(1, 1)\<close>.
\<close>

theorem cluster_points_single_witness:
  "[(0, 0), (0, 2), (3 :: real, 1 :: real)] \<noteq> []
   \<and> (0 :: real) < 100000000
   \<and> near_mean exact_math 100000000 (0, 2) [(0, 0)]
   \<and> near_mean exact_math 100000000 (3, 1) [(0, 0), (0, 2)]
   \<and> cluster_points exact_math [(0, 0), (0, 2), (3, 1)] 100000000 = Inr [(1, 1, 3)]"
proof -
  have big: "pi * 6371000 \<le> 100000000" using pi_less_4 by linarith
  have n: "near_mean exact_math 100000000 p pre" for p pre
    using big by (rule near_mean_large)
  show ?thesis
    using cluster_points_single [of "[(0, 0), (0, 2), (3, 1)]" 100000000 exact_math] n
    by (simp add: mean_def)
qed

text \<open>
  The claim as first stated fails at the distance 0: two equal points are at the distance 0
  from one another, so \<open>min_distance_m = 0\<close> is at least every distance between them, and
  yet the result is two clusters of one member each, since no scan takes place.
\<close>

theorem cluster_points_single_counterexample:
  "[(0, 0), (0 :: real, 0 :: real)] \<noteq> []
   \<and> near_mean exact_math 0 (0, 0) [(0, 0)]
   \<and> cluster_points exact_math [(0, 0), (0, 0)] 0 = Inr [(0, 0, 1), (0, 0, 1)]
   \<and> cluster_points exact_math [(0, 0), (0, 0)] 0
       \<noteq> Inr [(mean (map fst [(0, 0), (0, 0)]), mean (map snd [(0, 0), (0, 0)]), int (length [(0, 0), (0 :: real, 0 :: real)]))]"
  by (simp add: near_mean_def mean_def haversine_self [OF math_sane_exact] cluster_points_def)

text \<open>
  Claim C5. \<open>geographic_aspect\<close> gives the same result for \<open>Region(a, b, c, d)\<close> and for
  \<open>Region(b, a, d, c)\<close>, and it returns 1.0 whenever the longitude span of the region is 0.
\<close>

theorem geographic_aspect_swap_and_degenerate:
  "geographic_aspect M (Region a b c d) = geographic_aspect M (Region b a d c)
   \<and> (maximum_longitude region - minimum_longitude region = 0
        \<longrightarrow> geographic_aspect M region = Inr 1.0)"
  by (simp add: geographic_aspect_def normalized_swap Let_def) (simp add: normalized_def sorted2_def)

text \<open>The claim at a region and its swap, and at a region of one longitude.\<close>

theorem geographic_aspect_swap_and_degenerate_witness:
  "geographic_aspect exact_math (Region 2 4 10 20) = geographic_aspect exact_math (Region 4 2 20 10)
   \<and> maximum_longitude (Region 3 3 10 20) - minimum_longitude (Region 3 3 10 20) = 0
   \<and> geographic_aspect exact_math (Region 3 3 10 20) = Inr 1.0"
  using geographic_aspect_swap_and_degenerate [of exact_math 2 4 10 20 "Region 3 3 10 20"]
  by simp




text \<open>
  Claim C7 (as amended). For every marker position, the corner \<open>(x0, y0)\<close> of the inset is at
  most \<open>1 - inset_size - margin\<close> on each axis. Whenever the theme leaves room for the panel,
  \<open>margin \<le> 1 - inset_size - margin\<close>, the corner is also at least \<open>margin\<close> on each axis, so
  it lies within \<open>[margin, 1 - inset_size - margin]\<close>, and with a margin that is not negative
  the panel does not cross the edges of the figure. The defaults 0.30 and 0.02, which are the
  constants of \<open>main.py\<close> too, leave that room.
\<close>

theorem inset_corner_in_range:
  "(inset_corner x_fig y_fig inset_size inset_margin = (x0, y0) \<longrightarrow>
     x0 \<le> 1 - inset_size - inset_margin \<and> y0 \<le> 1 - inset_size - inset_margin
     \<and> (inset_margin \<le> 1 - inset_size - inset_margin \<longrightarrow>
          inset_margin \<le> x0 \<and> inset_margin \<le> y0
          \<and> (0 \<le> inset_margin \<longrightarrow>
                0 \<le> x0 \<and> x0 + inset_size \<le> 1 \<and> 0 \<le> y0 \<and> y0 + inset_size \<le> 1)))
   \<and> DEFAULT_inset_margin \<le> 1 - DEFAULT_inset_size - DEFAULT_inset_margin
   \<and> 0 \<le> DEFAULT_inset_margin
   \<and> main_inset_corner x_fig y_fig = inset_corner x_fig y_fig DEFAULT_inset_size DEFAULT_inset_margin"
proof -
  have "main_inset_corner x_fig y_fig = inset_corner x_fig y_fig DEFAULT_inset_size DEFAULT_inset_margin"
    by (simp add: inset_corner_def main_inset_corner_def DEFAULT_inset_size_def DEFAULT_inset_margin_def)
  moreover have "DEFAULT_inset_margin \<le> 1 - DEFAULT_inset_size - DEFAULT_inset_margin"
    and "0 \<le> DEFAULT_inset_margin"
    by (simp_all add: DEFAULT_inset_size_def DEFAULT_inset_margin_def)
  moreover have "inset_corner x_fig y_fig inset_size inset_margin = (x0, y0) \<longrightarrow>
     x0 \<le> 1 - inset_size - inset_margin \<and> y0 \<le> 1 - inset_size - inset_margin
     \<and> (inset_margin \<le> 1 - inset_size - inset_margin \<longrightarrow>
          inset_margin \<le> x0 \<and> inset_margin \<le> y0
          \<and> (0 \<le> inset_margin \<longrightarrow>
                0 \<le> x0 \<and> x0 + inset_size \<le> 1 \<and> 0 \<le> y0 \<and> y0 + inset_size \<le> 1))"
    by (auto simp: inset_corner_def Let_def)
  ultimately show ?thesis by blast
qed

text \<open>
  The claim with the default theme, at a marker in the upper right of the figure; \<open>main.py\<close>
  places its panel at the same corner.
\<close>

theorem inset_corner_in_range_witness:
  "inset_corner 0.9 0.95 DEFAULT_inset_size DEFAULT_inset_margin = (0.68, 0.68)
   \<and> main_inset_corner 0.9 0.95 = (0.68, 0.68)
   \<and> DEFAULT_inset_margin \<le> 1 - DEFAULT_inset_size - DEFAULT_inset_margin
   \<and> 0 \<le> DEFAULT_inset_margin
   \<and> DEFAULT_inset_margin \<le> 0.68
   \<and> (0.68 :: real) \<le> 1 - DEFAULT_inset_size - DEFAULT_inset_margin
   \<and> (0.68 :: real) + DEFAULT_inset_size \<le> 1"
  using inset_corner_in_range [of "0.9" "0.95" DEFAULT_inset_size DEFAULT_inset_margin "0.68" "0.68"]
  by (simp add: inset_corner_def main_inset_corner_def DEFAULT_inset_size_def DEFAULT_inset_margin_def)

text \<open>
  The claim as first stated fails for a theme whose panel does not fit: with
  \<open>inset_size = 0.99\<close> and the margin 0.02 the corner is \<open>(-0.01, -0.01)\<close>, below the margin
  and outside the figure.
\<close>

theorem inset_corner_counterexample:
  "inset_corner 0.5 0.5 0.99 0.02 = (- 0.01, - 0.01)
   \<and> \<not> (0.02 :: real) \<le> - 0.01
   \<and> \<not> (0 :: real) \<le> - 0.01"
  by (simp add: inset_corner_def)

text \<open>
  Claim C8 (as amended). A path that is not a file ends with a file-not-found error naming
  the path. Otherwise blank lines and lines whose stripped text starts with \<open>#\<close> are skipped;
  if every remaining line has exactly two comma-separated numeric fields, the result is the
  list of their \<open>(lat, lon)\<close> pairs, one per remaining line and in their order; and if not, the
  result is a value error for the first remaining line that has not: one that cites the raw
  line when the line does not have exactly two fields, and the error of \<open>float\<close>, which cites
  the field, when a field of the two is not numeric.
\<close>

theorem read_points_csv_result:
  "read_points_csv to_float fs path =
     (case fs path of
        None \<Rightarrow> Inl (FileNotFoundError path)
      | Some content \<Rightarrow>
          (case find (\<lambda>raw. \<not> two_numeric_fields to_float raw) (remaining_lines content) of
             None \<Rightarrow> Inr (map (line_point to_float) (remaining_lines content))
           | Some raw \<Rightarrow> Inl (ValueError (line_error to_float raw))))"
  by (simp add: read_points_csv_def read_points_lines_eq remaining_lines_def split: option.splits)

text \<open>
  The claim at a file of four lines, a comment and a blank line among them, at a file with a
  third field, and at a path with no file.
\<close>

theorem read_points_csv_result_witness:
  "read_points_csv sample_float
      [''points.csv'' \<mapsto> ''52.0,-8.0'' @ [CHR 0x0A] @ ''# note'' @ [CHR 0x0A, CHR 0x0A] @ ''  10 , 10 '' @ [CHR 0x0D, CHR 0x0A]]
      ''points.csv''
     = Inr [(52, - 8), (10, 10)]
   \<and> read_points_csv sample_float [''points.csv'' \<mapsto> ''10,10,10''] ''points.csv''
     = Inl (ValueError (InvalidPointsLine ''10,10,10''))
   \<and> read_points_csv sample_float Map.empty ''points.csv'' = Inl (FileNotFoundError ''points.csv'')"
  using read_points_csv_result [of sample_float Map.empty "''points.csv''"]
  by (simp add: read_points_csv_def splitlines_def is_linebreak_def strip_def is_space_def
      startswith_hash_def sample_float_def py_float_def Let_def)

text \<open>
  The claim as first stated fails: for the line \<open>abc,10\<close> the value error is that of
  \<open>float\<close>, which cites the field \<open>abc\<close> and not the line.
\<close>

theorem read_points_csv_counterexample:
  "read_points_csv sample_float [''points.csv'' \<mapsto> ''abc,10''] ''points.csv''
     = Inl (ValueError (CouldNotConvert ''abc''))
   \<and> read_points_csv sample_float [''points.csv'' \<mapsto> ''abc,10''] ''points.csv''
     \<noteq> Inl (ValueError (InvalidPointsLine ''abc,10''))"
  by (simp add: read_points_csv_def splitlines_def is_linebreak_def strip_def is_space_def
      startswith_hash_def sample_float_def py_float_def Let_def)

text \<open>
  Claim C9. For every list of points and every \<open>min_distance_m\<close>, the clusters that
  clustering returns conserve the points: their member counts add up to the number of
  points, every member count is at least 1, and there are at most as many clusters as points.
\<close>

theorem cluster_points_conservation:
  "cluster_points M points min_distance_m = Inr cs \<Longrightarrow>
     sum_list (map member_count cs) = int (length points)
     \<and> (\<forall>c\<in>set cs. 1 \<le> member_count c)
     \<and> length cs \<le> length points"
proof (cases "points = [] \<or> min_distance_m \<le> 0")
  case True
  assume r: "cluster_points M points min_distance_m = Inr cs"
  have "sum_list (map (member_count \<circ> (\<lambda>(lat, lon). (lat, lon, 1))) points) = int (length points)"
    by (induction points) auto
  then show ?thesis using True r
    by (auto simp: cluster_points_def split: if_splits)
next
  case False
  assume r: "cluster_points M points min_distance_m = Inr cs"
  with False have "cluster_loop M min_distance_m points [] = Inr cs"
    by (simp add: cluster_points_def)
  from cluster_loop_inv [OF _ this] show ?thesis by simp
qed

text \<open>
  The claim at three points, the first and the third equal and the second on the other side
  of the globe, and the distance of one metre, with the exact functions: two clusters, of two
  members and of one.
\<close>

theorem cluster_points_conservation_witness:
  "cluster_points exact_math [(0, 0), (0, 180), (0, 0)] 1 = Inr [(0, 0, 2), (0, 180, 1)]
   \<and> sum_list (map member_count [(0, 0, 2), (0, 180, 1)]) = int (length [(0, 0), (0, 180), (0 :: real, 0 :: real)])
   \<and> 1 \<le> member_count (0, 0, 2) \<and> 1 \<le> member_count (0, 180, 1)
   \<and> length [(0, 0, 2), (0, 180 :: real, 1 :: int)] \<le> length [(0, 0), (0, 180), (0 :: real, 0 :: real)]"
proof -
  have r: "cluster_points exact_math [(0, 0), (0, 180), (0, 0)] 1 = Inr [(0, 0, 2), (0, 180, 1)]"
    by (simp add: cluster_points_def haversine_far haversine_far_gt
        haversine_self [OF math_sane_exact] truediv_def)
  show ?thesis
    using cluster_points_conservation [OF r] r by simp
qed

text \<open>
  Claim C10. For the empty list of points \<open>_auto_region_from_points\<close> returns the default
  world region, normalized, which is \<open>Region(-11.0, -5.0, 50.5, 56.5)\<close>: it does not fail, and
  the region has a positive span on both axes.
\<close>

theorem auto_region_from_points_empty:
  "auto_region_from_points [] = Inr (Region (- 11.0) (- 5.0) 50.5 56.5)
   \<and> auto_region_from_points [] = Inr (normalized DEFAULT_WORLD_REGION)
   \<and> minimum_longitude (Region (- 11.0) (- 5.0) 50.5 56.5) < maximum_longitude (Region (- 11.0) (- 5.0) 50.5 56.5)
   \<and> minimum_latitude (Region (- 11.0) (- 5.0) 50.5 56.5) < maximum_latitude (Region (- 11.0) (- 5.0) 50.5 56.5)"
  by (simp add: auto_region_from_points_def DEFAULT_WORLD_REGION_def normalized_def sorted2_def)

end
